theory Spec2Isabelle
  imports Main "HOL-Library.Word" "HOL-Library.Signed_Division" "HOL-Library.Monad_Syntax"
begin

section \<open>The Mufi virtual machine (src/vm.c, src/vm.h)\<close>

text \<open>
  The development embeds the run-time engine of vm.c: the operand stack, the
  instruction pointer, the table of globals and the error reporter. Every place where
  the C program has no defined behaviour (reading past the instruction stream, popping
  an empty stack, pushing onto a full one, integer division by zero, treating a
  constant that is no string as a string) is a branch of the model that yields
  \<open>None\<close> or \<open>Undefined_Behaviour\<close>; no theorem below hides such a branch
  behind an unspecified HOL value.
\<close>

subsection \<open>Values\<close>

text \<open>
  \<open>Value\<close> is the tagged union of value.h. The macro \<open>BINARY_OP\<close> of vm.c reads
  the integer payload into C \<open>int\<close> variables, so the payload is a 32-bit word. A
  double is carried as its 64-bit pattern; floating-point arithmetic itself is not
  modelled and enters through \<open>Env\<close> below. The only heap object of this core is the
  interned string, which is represented by its characters: interning makes identity of
  string objects coincide with equality of content.
\<close>

type_synonym cint = "32 word"
type_synonym double = "64 word"

datatype Obj = ObjString string

datatype Value =
    IS_NIL: NIL_VAL
  | IS_BOOL: BOOL_VAL bool
  | IS_INT: INT_VAL cint
  | IS_DOUBLE: DOUBLE_VAL double
  | IS_OBJ: OBJ_VAL Obj

fun IS_STRING :: "Value \<Rightarrow> bool" where
  "IS_STRING (OBJ_VAL (ObjString s)) = True"
| "IS_STRING _ = False"

text \<open>
  \<open>AS_INT\<close>, \<open>AS_DOUBLE\<close> and \<open>AS_STRING\<close> read one member of the union. vm.c
  applies \<open>AS_INT\<close> and \<open>AS_DOUBLE\<close> only behind the matching \<open>IS_\<close> test; on any other
  variant they have no result.
\<close>

fun AS_INT :: "Value \<Rightarrow> cint option" where
  "AS_INT (INT_VAL n) = Some n"
| "AS_INT _ = None"

fun AS_DOUBLE :: "Value \<Rightarrow> double option" where
  "AS_DOUBLE (DOUBLE_VAL d) = Some d"
| "AS_DOUBLE _ = None"

fun AS_STRING :: "Value \<Rightarrow> string option" where
  "AS_STRING (OBJ_VAL (ObjString s)) = Some s"
| "AS_STRING _ = None"

subsection \<open>Bytecode unit, opcodes and the machine state\<close>

datatype OpCode =
    OP_CONSTANT | OP_NIL | OP_TRUE | OP_FALSE | OP_POP
  | OP_GET_GLOBAL | OP_DEFINE_GLOBAL | OP_SET_GLOBAL
  | OP_EQUAL | OP_GREATER | OP_LESS
  | OP_ADD | OP_SUBTRACT | OP_MULTIPLY | OP_DIVIDE
  | OP_NOT | OP_NEGATE | OP_PRINT | OP_RETURN

text \<open>The operator a use of \<open>BINARY_OP\<close> or \<open>BINARY_OP_COMPARISON\<close> is expanded with.\<close>

datatype BinOp = Plus | Minus | Times | Slash

datatype CmpOp = Greater | Less

datatype InterpretResult = INTERPRET_OK | INTERPRET_COMPILE_ERROR | INTERPRET_RUNTIME_ERROR

record Chunk =
  code :: "8 word list"
  constants :: "Value list"
  lines :: "int list"

text \<open>
  One call of \<open>runtimeError\<close> writes two lines to the error stream: the formatted
  message and \<open>[line N] in script\<close>. A \<open>Diagnostic\<close> holds the message and \<open>N\<close>.
\<close>

record Diagnostic =
  message :: string
  line :: int

text \<open>
  The global \<open>vm\<close> of vm.c, with the two streams it writes to. The stack is a list
  whose head is the top (the slot below \<open>stackTop\<close>); its length is the depth
  \<open>stackTop - stack\<close>. \<open>out\<close> lists the values handed to \<open>printValue\<close>, each followed
  by a newline in the program.
\<close>

record VM =
  chunk :: Chunk
  ip :: nat
  stack :: "Value list"
  globals :: "string \<rightharpoonup> Value"
  out :: "Value list"
  err :: "Diagnostic list"

text \<open>
  What vm.c takes from headers and translation units that are not part of the
  sources at hand: the numbering of the opcodes (chunk.h), arithmetic and negation on
  doubles, \<open>valuesEqual\<close> (value.c), the byte that the \<open>boolean\<close> member of the union
  holds in a value that is not a Bool (its memory layout), and \<open>compile\<close> (compiler.c).
  They are parameters of the model; every general theorem holds for all of them.
\<close>

record Env =
  opcode_of :: "8 word \<Rightarrow> OpCode option"
  double_arith :: "BinOp \<Rightarrow> double \<Rightarrow> double \<Rightarrow> double"
  double_negate :: "double \<Rightarrow> double"
  valuesEqual :: "Value \<Rightarrow> Value \<Rightarrow> bool"
  union_boolean :: "Value \<Rightarrow> 8 word"
  compile :: "string \<Rightarrow> Chunk option"

text \<open>
  \<open>AS_BOOL\<close> reads the one-byte \<open>boolean\<close> member of the union, and
  \<open>BINARY_OP_COMPARISON\<close> applies it without any test of the tag. In a Bool the byte is
  1 or 0. In a value of another variant it is whatever byte of the payload lies there;
  the program copies that byte into its \<open>bool\<close> variables as it is, so the model
  carries the byte and not a truth value.
\<close>

fun AS_BOOL :: "Env \<Rightarrow> Value \<Rightarrow> 8 word" where
  "AS_BOOL E (BOOL_VAL b) = (if b then 1 else 0)"
| "AS_BOOL E v = union_boolean E v"

text \<open>
  The result of one pass through the loop body of \<open>run\<close>: go on with the next
  instruction, leave \<open>run\<close> with a result, or undefined behaviour of the C program.
\<close>

datatype Outcome = Next VM | Exit InterpretResult VM | Undefined_Behaviour

definition continue :: "VM option \<Rightarrow> Outcome" where
  "continue r = (case r of None \<Rightarrow> Undefined_Behaviour | Some vm \<Rightarrow> Next vm)"

definition fail :: "VM option \<Rightarrow> Outcome" where
  "fail r = (case r of None \<Rightarrow> Undefined_Behaviour
                     | Some vm \<Rightarrow> Exit INTERPRET_RUNTIME_ERROR vm)"

subsection \<open>The globals table\<close>

text \<open>
  Modelled from the spec: \<open>tableGet\<close>, \<open>tableSet\<close> and \<open>tableDelete\<close> of table.c, which
  is not among the sources. Section 6 of the specification gives their contract:
  \<open>get(name) -> Option<Value>\<close>, \<open>set_or_insert(name, value) -> was_new_key\<close> and
  \<open>delete(name)\<close>, on a mapping from interned string key to value.
\<close>

definition tableGet :: "(string \<rightharpoonup> Value) \<Rightarrow> string \<Rightarrow> Value option" where
  "tableGet t name = t name"

definition tableSet :: "(string \<rightharpoonup> Value) \<Rightarrow> string \<Rightarrow> Value \<Rightarrow> bool \<times> (string \<rightharpoonup> Value)" where
  "tableSet t name v = (t name = None, t(name \<mapsto> v))"

definition tableDelete :: "(string \<rightharpoonup> Value) \<Rightarrow> string \<Rightarrow> (string \<rightharpoonup> Value)" where
  "tableDelete t name = t(name := None)"

subsection \<open>Stack primitives and the error reporter\<close>

definition STACK_MAX :: nat where
  "STACK_MAX = 256"

definition resetStack :: "VM \<Rightarrow> VM" where
  "resetStack vm = vm\<lparr>stack := []\<rparr>"

text \<open>
  \<open>runtimeError\<close> looks the line up at \<open>vm.ip - vm.chunk->code - 1\<close>, the offset of
  the byte fetched last, and then resets the stack. An offset outside the line table
  is an out-of-bounds read.
\<close>

definition runtimeError :: "string \<Rightarrow> VM \<Rightarrow> VM option" where
  "runtimeError msg vm =
     (if 0 < ip vm \<and> ip vm - 1 < length (lines (chunk vm))
      then Some (resetStack
             (vm\<lparr>err := err vm @ [\<lparr>message = msg, line = lines (chunk vm) ! (ip vm - 1)\<rparr>]\<rparr>))
      else None)"

definition push :: "Value \<Rightarrow> VM \<Rightarrow> VM option" where
  "push v vm = (if length (stack vm) < STACK_MAX then Some (vm\<lparr>stack := v # stack vm\<rparr>)
                else None)"

definition pop :: "VM \<Rightarrow> (Value \<times> VM) option" where
  "pop vm = (case stack vm of [] \<Rightarrow> None | v # rest \<Rightarrow> Some (v, vm\<lparr>stack := rest\<rparr>))"

definition peek :: "nat \<Rightarrow> VM \<Rightarrow> Value option" where
  "peek distance vm = (if distance < length (stack vm) then Some (stack vm ! distance)
                       else None)"

definition isFalsey :: "Env \<Rightarrow> Value \<Rightarrow> bool" where
  "isFalsey E v = (IS_NIL v \<or> (IS_BOOL v \<and> AS_BOOL E v = 0))"

definition concatenate :: "VM \<Rightarrow> VM option" where
  "concatenate vm = do {
     (vb, vm1) \<leftarrow> pop vm;
     b \<leftarrow> AS_STRING vb;
     (va, vm2) \<leftarrow> pop vm1;
     a \<leftarrow> AS_STRING va;
     push (OBJ_VAL (ObjString (a @ b))) vm2 }"

subsection \<open>The macros of \<open>run\<close>\<close>

definition READ_BYTE :: "VM \<Rightarrow> (8 word \<times> VM) option" where
  "READ_BYTE vm = (if ip vm < length (code (chunk vm))
                   then Some (code (chunk vm) ! ip vm, vm\<lparr>ip := ip vm + 1\<rparr>) else None)"

definition READ_CONSTANT :: "VM \<Rightarrow> (Value \<times> VM) option" where
  "READ_CONSTANT vm = do {
     (b, vm1) \<leftarrow> READ_BYTE vm;
     if unat b < length (constants (chunk vm1))
     then Some (constants (chunk vm1) ! unat b, vm1) else None }"

definition READ_STRING :: "VM \<Rightarrow> (string \<times> VM) option" where
  "READ_STRING vm = do {
     (v, vm1) \<leftarrow> READ_CONSTANT vm;
     s \<leftarrow> AS_STRING v;
     Some (s, vm1) }"

text \<open>
  \<open>P(peek(0)) && P(peek(1))\<close>: the second slot is read only when the first test
  succeeds, as \<open>&&\<close> evaluates.
\<close>

definition both_are :: "(Value \<Rightarrow> bool) \<Rightarrow> VM \<Rightarrow> bool option" where
  "both_are P vm =
     (case peek 0 vm of None \<Rightarrow> None
      | Some v0 \<Rightarrow> if P v0 then (case peek 1 vm of None \<Rightarrow> None | Some v1 \<Rightarrow> Some (P v1))
                   else Some False)"

text \<open>
  \<open>a op b\<close> on C \<open>int\<close>. Sum, difference and product wrap around in two's
  complement; a quotient truncates towards zero. Division by zero and the quotient
  of \<open>INT_MIN\<close> by \<open>-1\<close> trap and have no result.
\<close>

definition INT_MIN :: cint where
  "INT_MIN = word_of_int (- (2 ^ 31))"

fun int_arith :: "BinOp \<Rightarrow> cint \<Rightarrow> cint \<Rightarrow> cint option" where
  "int_arith Plus a b = Some (a + b)"
| "int_arith Minus a b = Some (a - b)"
| "int_arith Times a b = Some (a * b)"
| "int_arith Slash a b =
     (if b = 0 \<or> (a = INT_MIN \<and> b = - 1) then None
      else Some (word_of_int (sint a sdiv sint b)))"

definition operands_message :: string where
  "operands_message = ''Operands must be either both integer or both double numbers.''"

definition BINARY_OP :: "Env \<Rightarrow> BinOp \<Rightarrow> VM \<Rightarrow> Outcome" where
  "BINARY_OP E op vm =
     (case both_are IS_INT vm of
        None \<Rightarrow> Undefined_Behaviour
      | Some True \<Rightarrow> continue (do {
          (vb, vm1) \<leftarrow> pop vm;
          b \<leftarrow> AS_INT vb;
          (va, vm2) \<leftarrow> pop vm1;
          a \<leftarrow> AS_INT va;
          r \<leftarrow> int_arith op a b;
          push (INT_VAL r) vm2 })
      | Some False \<Rightarrow>
         (case both_are IS_DOUBLE vm of
            None \<Rightarrow> Undefined_Behaviour
          | Some True \<Rightarrow> continue (do {
              (vb, vm1) \<leftarrow> pop vm;
              b \<leftarrow> AS_DOUBLE vb;
              (va, vm2) \<leftarrow> pop vm1;
              a \<leftarrow> AS_DOUBLE va;
              push (DOUBLE_VAL (double_arith E op a b)) vm2 })
          | Some False \<Rightarrow> fail (runtimeError operands_message vm)))"

text \<open>
  \<open>a op b\<close> on the two \<open>bool\<close> variables of \<open>BINARY_OP_COMPARISON\<close>: the operands
  are promoted to \<open>int\<close> and compared as numbers, so the bytes are compared as unsigned
  numbers (the order of \<open>8 word\<close>).
\<close>

fun compare_bool :: "CmpOp \<Rightarrow> 8 word \<Rightarrow> 8 word \<Rightarrow> bool" where
  "compare_bool Greater a b = (a > b)"
| "compare_bool Less a b = (a < b)"

definition BINARY_OP_COMPARISON :: "Env \<Rightarrow> CmpOp \<Rightarrow> VM \<Rightarrow> Outcome" where
  "BINARY_OP_COMPARISON E op vm = continue (do {
     (vb, vm1) \<leftarrow> pop vm;
     (va, vm2) \<leftarrow> pop vm1;
     push (BOOL_VAL (compare_bool op (AS_BOOL E va) (AS_BOOL E vb))) vm2 })"

subsection \<open>The dispatch switch and the loop\<close>

text \<open>
  What the conversion \<open>%s\<close> prints of \<open>name->chars\<close>: the characters up to the first
  zero byte.
\<close>

definition c_string :: "string \<Rightarrow> string" where
  "c_string s = takeWhile (\<lambda>c. c \<noteq> CHR 0x00) s"

definition undefined_variable_message :: "string \<Rightarrow> string" where
  "undefined_variable_message name =
     ''Undefined variable '' @ [CHR 0x27] @ c_string name @ [CHR 0x27] @ ''.''"

definition operand_message :: string where
  "operand_message = ''Operand must be a number (int/double).''"

text \<open>One \<open>case\<close> of the switch, entered after the opcode byte has been fetched.\<close>

fun execute :: "Env \<Rightarrow> OpCode \<Rightarrow> VM \<Rightarrow> Outcome" where
  "execute E OP_CONSTANT vm = continue (do {
     (constant, vm1) \<leftarrow> READ_CONSTANT vm;
     push constant vm1 })"
| "execute E OP_NIL vm = continue (push NIL_VAL vm)"
| "execute E OP_TRUE vm = continue (push (BOOL_VAL True) vm)"
| "execute E OP_FALSE vm = continue (push (BOOL_VAL False) vm)"
| "execute E OP_POP vm = continue (do { (v, vm1) \<leftarrow> pop vm; Some vm1 })"
| "execute E OP_GET_GLOBAL vm =
     (case READ_STRING vm of
        None \<Rightarrow> Undefined_Behaviour
      | Some (name, vm1) \<Rightarrow>
         (case tableGet (globals vm1) name of
            None \<Rightarrow> fail (runtimeError (undefined_variable_message name) vm1)
          | Some v \<Rightarrow> continue (push v vm1)))"
| "execute E OP_DEFINE_GLOBAL vm =
     (case READ_STRING vm of
        None \<Rightarrow> Undefined_Behaviour
      | Some (name, vm1) \<Rightarrow> continue (do {
          v \<leftarrow> peek 0 vm1;
          (w, vm2) \<leftarrow> pop (vm1\<lparr>globals := snd (tableSet (globals vm1) name v)\<rparr>);
          Some vm2 }))"
| "execute E OP_SET_GLOBAL vm =
     (case READ_STRING vm of
        None \<Rightarrow> Undefined_Behaviour
      | Some (name, vm1) \<Rightarrow>
         (case peek 0 vm1 of
            None \<Rightarrow> Undefined_Behaviour
          | Some v \<Rightarrow>
             (case tableSet (globals vm1) name v of
                (isNewKey, t) \<Rightarrow>
                  if isNewKey
                  then fail (runtimeError (undefined_variable_message name)
                               (vm1\<lparr>globals := tableDelete t name\<rparr>))
                  else Next (vm1\<lparr>globals := t\<rparr>))))"
| "execute E OP_EQUAL vm = continue (do {
     (b, vm1) \<leftarrow> pop vm;
     (a, vm2) \<leftarrow> pop vm1;
     push (BOOL_VAL (valuesEqual E a b)) vm2 })"
| "execute E OP_GREATER vm = BINARY_OP_COMPARISON E Greater vm"
| "execute E OP_LESS vm = BINARY_OP_COMPARISON E Less vm"
| "execute E OP_ADD vm =
     (case both_are IS_STRING vm of
        None \<Rightarrow> Undefined_Behaviour
      | Some True \<Rightarrow> continue (concatenate vm)
      | Some False \<Rightarrow> BINARY_OP E Plus vm)"
| "execute E OP_SUBTRACT vm = BINARY_OP E Minus vm"
| "execute E OP_MULTIPLY vm = BINARY_OP E Times vm"
| "execute E OP_DIVIDE vm = BINARY_OP E Slash vm"
| "execute E OP_NOT vm = continue (do {
     (v, vm1) \<leftarrow> pop vm;
     push (BOOL_VAL (isFalsey E v)) vm1 })"
| "execute E OP_NEGATE vm =
     (case peek 0 vm of
        None \<Rightarrow> Undefined_Behaviour
      | Some v \<Rightarrow>
          if \<not> IS_INT v \<or> \<not> IS_DOUBLE v
          then fail (runtimeError operand_message vm)
          else if IS_INT v
          then continue (do {
                 (x, vm1) \<leftarrow> pop vm;
                 n \<leftarrow> AS_INT x;
                 push (INT_VAL (- n)) vm1 })
          else continue (do {
                 (x, vm1) \<leftarrow> pop vm;
                 d \<leftarrow> AS_DOUBLE x;
                 push (DOUBLE_VAL (double_negate E d)) vm1 }))"
| "execute E OP_PRINT vm = continue (do {
     (v, vm1) \<leftarrow> pop vm;
     Some (vm1\<lparr>out := out vm1 @ [v]\<rparr>) })"
| "execute E OP_RETURN vm = Exit INTERPRET_OK vm"

text \<open>
  The body of \<open>for(;;)\<close>: fetch a byte and switch on it. The switch has no
  \<open>default\<close> label, so a byte that is none of the case labels falls out of it.
\<close>

definition step :: "Env \<Rightarrow> VM \<Rightarrow> Outcome" where
  "step E vm =
     (case READ_BYTE vm of
        None \<Rightarrow> Undefined_Behaviour
      | Some (instruction, vm1) \<Rightarrow>
         (case opcode_of E instruction of
            None \<Rightarrow> Next vm1
          | Some op \<Rightarrow> execute E op vm1))"

text \<open>
  \<open>run\<close> repeats the body until a \<open>return\<close>. \<open>None\<close> is undefined behaviour. The
  function is total: no opcode moves the instruction pointer backwards, and a fetch
  past the end of the instruction stream is undefined behaviour.
\<close>

function run :: "Env \<Rightarrow> VM \<Rightarrow> (InterpretResult \<times> VM) option" where
  "run E vm =
     (case step E vm of
        Next vm' \<Rightarrow> run E vm'
      | Exit r vm' \<Rightarrow> Some (r, vm')
      | Undefined_Behaviour \<Rightarrow> None)"
  by pat_completeness auto

text \<open>
  \<open>interpret\<close> of vm.c (the name is a keyword of Isabelle, hence the suffix): compile
  the source, point the machine at the start of the bytecode unit, and run it.
\<close>

definition interpret_source :: "Env \<Rightarrow> string \<Rightarrow> VM \<Rightarrow> (InterpretResult \<times> VM) option" where
  "interpret_source E source vm =
     (case compile E source of
        None \<Rightarrow> Some (INTERPRET_COMPILE_ERROR, vm)
      | Some c \<Rightarrow> run E (vm\<lparr>chunk := c, ip := 0\<rparr>))"

subsection \<open>The stack effects documented for the opcodes\<close>

text \<open>
  The change of depth that section 4.1 of the specification documents for a
  successful execution of each opcode.
\<close>

fun documented_delta :: "OpCode \<Rightarrow> int" where
  "documented_delta OP_CONSTANT = 1"
| "documented_delta OP_NIL = 1"
| "documented_delta OP_TRUE = 1"
| "documented_delta OP_FALSE = 1"
| "documented_delta OP_GET_GLOBAL = 1"
| "documented_delta OP_POP = - 1"
| "documented_delta OP_DEFINE_GLOBAL = - 1"
| "documented_delta OP_EQUAL = - 1"
| "documented_delta OP_GREATER = - 1"
| "documented_delta OP_LESS = - 1"
| "documented_delta OP_ADD = - 1"
| "documented_delta OP_SUBTRACT = - 1"
| "documented_delta OP_MULTIPLY = - 1"
| "documented_delta OP_DIVIDE = - 1"
| "documented_delta OP_PRINT = - 1"
| "documented_delta OP_SET_GLOBAL = 0"
| "documented_delta OP_NOT = 0"
| "documented_delta OP_NEGATE = 0"
| "documented_delta OP_RETURN = 0"

text \<open>The operand bytes that follow an opcode in the instruction stream.\<close>

fun operand_bytes :: "OpCode \<Rightarrow> nat" where
  "operand_bytes OP_CONSTANT = 1"
| "operand_bytes OP_GET_GLOBAL = 1"
| "operand_bytes OP_DEFINE_GLOBAL = 1"
| "operand_bytes OP_SET_GLOBAL = 1"
| "operand_bytes _ = 0"

text \<open>
  The operator with which the switch expands \<open>BINARY_OP\<close> under the four arithmetic
  case labels.
\<close>

fun arith_operator :: "OpCode \<Rightarrow> BinOp option" where
  "arith_operator OP_ADD = Some Plus"
| "arith_operator OP_SUBTRACT = Some Minus"
| "arith_operator OP_MULTIPLY = Some Times"
| "arith_operator OP_DIVIDE = Some Slash"
| "arith_operator _ = None"

subsection \<open>A concrete environment for evaluation\<close>

text \<open>
  An instance of \<open>Env\<close> on which the model can be run: the opcodes are numbered in
  the order of the case labels of the switch, and \<open>compile\<close> accepts no source. The
  \<open>boolean\<close> member of the union overlays the lowest byte of an Int or a Double, as
  on a little-endian machine where the members of the union start at the same
  address, and is 0 in Nil and in an object. Its
  operations on doubles stand for no floating-point arithmetic: where an evaluation
  below applies one, the result is left as the application of \<open>double_arith test_env\<close>.
  A \<open>DOUBLE_VAL\<close> is written with its bit pattern, so \<open>DOUBLE_VAL 0\<close> is \<open>0.0\<close>.
\<close>

definition opcode_table :: "OpCode list" where
  "opcode_table =
     [OP_CONSTANT, OP_NIL, OP_TRUE, OP_FALSE, OP_POP, OP_GET_GLOBAL, OP_DEFINE_GLOBAL,
      OP_SET_GLOBAL, OP_EQUAL, OP_GREATER, OP_LESS, OP_ADD, OP_SUBTRACT, OP_MULTIPLY,
      OP_DIVIDE, OP_NOT, OP_NEGATE, OP_PRINT, OP_RETURN]"

definition test_opcode_of :: "8 word \<Rightarrow> OpCode option" where
  "test_opcode_of b = (if unat b < length opcode_table then Some (opcode_table ! unat b)
                       else None)"

definition test_env :: Env where
  "test_env = \<lparr>opcode_of = test_opcode_of,
               double_arith = (\<lambda>op a b. a),
               double_negate = (\<lambda>d. d),
               valuesEqual = (\<lambda>a b. a = b),
               union_boolean =
                 (\<lambda>v. case v of INT_VAL n \<Rightarrow> ucast n | DOUBLE_VAL d \<Rightarrow> ucast d | _ \<Rightarrow> 0),
               compile = (\<lambda>s. None)\<rparr>"

definition test_vm :: "8 word list \<Rightarrow> Value list \<Rightarrow> int list \<Rightarrow> Value list \<Rightarrow> VM" where
  "test_vm bytes consts lns stk =
     \<lparr>chunk = \<lparr>code = bytes, constants = consts, lines = lns\<rparr>,
      ip = 0, stack = stk, globals = Map.empty, out = [], err = []\<rparr>"

section \<open>Properties\<close>

subsection \<open>Effects of the primitives and termination of \<open>run\<close>\<close>

lemma push_Some:
  "push v vm = Some vm' \<Longrightarrow> vm' = vm\<lparr>stack := v # stack vm\<rparr> \<and> length (stack vm) < STACK_MAX"
  by (auto simp: push_def split: if_splits)

lemma pop_Some:
  "pop vm = Some (v, vm') \<Longrightarrow> \<exists>rest. stack vm = v # rest \<and> vm' = vm\<lparr>stack := rest\<rparr>"
  by (auto simp: pop_def split: list.splits)

lemma READ_CONSTANT_Some:
  "READ_CONSTANT vm = Some (v, vm1) \<Longrightarrow>
     vm1 = vm\<lparr>ip := ip vm + 1\<rparr> \<and> ip vm < length (code (chunk vm))"
  by (auto simp: READ_CONSTANT_def READ_BYTE_def split: if_splits Option.bind_splits)

lemma READ_STRING_Some:
  "READ_STRING vm = Some (s, vm1) \<Longrightarrow>
     vm1 = vm\<lparr>ip := ip vm + 1\<rparr> \<and> ip vm < length (code (chunk vm))"
  by (auto simp: READ_STRING_def split: Option.bind_splits dest: READ_CONSTANT_Some)

lemma BINARY_OP_Next:
  "BINARY_OP E op vm = Next vm' \<Longrightarrow>
     ip vm' = ip vm \<and> chunk vm' = chunk vm \<and> length (stack vm') + 1 = length (stack vm)"
  by (auto simp: BINARY_OP_def continue_def fail_def both_are_def peek_def
           split: option.splits bool.splits if_splits Option.bind_splits
           dest!: push_Some pop_Some)

lemma BINARY_OP_COMPARISON_Next:
  "BINARY_OP_COMPARISON E op vm = Next vm' \<Longrightarrow>
     ip vm' = ip vm \<and> chunk vm' = chunk vm \<and> length (stack vm') + 1 = length (stack vm)"
  by (auto simp: BINARY_OP_COMPARISON_def continue_def
           split: option.splits Option.bind_splits
           dest!: push_Some pop_Some)

lemma concatenate_Some:
  "concatenate vm = Some vm' \<Longrightarrow>
     ip vm' = ip vm \<and> chunk vm' = chunk vm \<and> length (stack vm') + 1 = length (stack vm)"
  by (auto simp: concatenate_def
           split: option.splits Option.bind_splits
           dest!: push_Some pop_Some)

lemma execute_Next:
  "execute E op vm = Next vm' \<Longrightarrow>
     ip vm' = ip vm + operand_bytes op \<and> chunk vm' = chunk vm
     \<and> int (length (stack vm')) = int (length (stack vm)) + documented_delta op"
  by (cases op)
     (auto simp: continue_def fail_def both_are_def peek_def tableSet_def tableGet_def
           split: option.splits bool.splits if_splits Option.bind_splits prod.splits
           dest!: push_Some pop_Some READ_CONSTANT_Some READ_STRING_Some
                  BINARY_OP_Next BINARY_OP_COMPARISON_Next concatenate_Some)

lemma step_Next:
  "step E vm = Next vm' \<Longrightarrow>
     ip vm < length (code (chunk vm)) \<and> ip vm < ip vm' \<and> chunk vm' = chunk vm"
  by (auto simp: step_def READ_BYTE_def split: option.splits if_splits dest!: execute_Next)

termination run
proof (relation "measure (\<lambda>(E, vm). length (code (chunk vm)) - ip vm)")
  show "wf (measure (\<lambda>(E, vm). length (code (chunk vm)) - ip vm))" by simp
next
  fix E vm vm'
  assume "step E vm = Next vm'"
  from step_Next [OF this]
  show "((E, vm'), (E, vm)) \<in> measure (\<lambda>(E, vm). length (code (chunk vm)) - ip vm)"
    by auto
qed

declare run.simps [simp del]

subsection \<open>Fetching, leaving the loop, and the evaluation environment\<close>

lemma step_fetch:
  "ip vm < length (code (chunk vm)) \<Longrightarrow> opcode_of E (code (chunk vm) ! ip vm) = Some op \<Longrightarrow>
     step E vm = execute E op (vm\<lparr>ip := ip vm + 1\<rparr>)"
  by (simp add: step_def READ_BYTE_def)

lemma execute_Exit:
  "execute E op vm = Exit r vm' \<Longrightarrow>
     (r = INTERPRET_OK \<and> op = OP_RETURN \<and> vm' = vm) \<or>
     (r = INTERPRET_RUNTIME_ERROR \<and> stack vm' = [] \<and> ip vm' = ip vm + operand_bytes op
        \<and> ip vm' - 1 < length (lines (chunk vm))
        \<and> (\<exists>msg. err vm' = err vm @ [\<lparr>message = msg, line = lines (chunk vm) ! (ip vm' - 1)\<rparr>]))"
  by (cases op)
     (auto simp: continue_def fail_def both_are_def peek_def tableSet_def tableGet_def
                 BINARY_OP_def BINARY_OP_COMPARISON_def runtimeError_def resetStack_def
           split: option.splits bool.splits if_splits prod.splits
           dest!: READ_STRING_Some)

lemma NEGATE_always_fails:
  "execute E OP_NEGATE vm =
     (case peek 0 vm of None \<Rightarrow> Undefined_Behaviour
      | Some v \<Rightarrow> fail (runtimeError operand_message vm))"
  by (auto split: option.splits)

lemma test_opcodes:
  "test_opcode_of 0 = Some OP_CONSTANT" "test_opcode_of 1 = Some OP_NIL"
  "test_opcode_of 2 = Some OP_TRUE" "test_opcode_of 3 = Some OP_FALSE"
  "test_opcode_of 4 = Some OP_POP" "test_opcode_of 5 = Some OP_GET_GLOBAL"
  "test_opcode_of 6 = Some OP_DEFINE_GLOBAL" "test_opcode_of 7 = Some OP_SET_GLOBAL"
  "test_opcode_of 8 = Some OP_EQUAL" "test_opcode_of 9 = Some OP_GREATER"
  "test_opcode_of 10 = Some OP_LESS" "test_opcode_of 11 = Some OP_ADD"
  "test_opcode_of 12 = Some OP_SUBTRACT" "test_opcode_of 13 = Some OP_MULTIPLY"
  "test_opcode_of 14 = Some OP_DIVIDE" "test_opcode_of 15 = Some OP_NOT"
  "test_opcode_of 16 = Some OP_NEGATE" "test_opcode_of 17 = Some OP_PRINT"
  "test_opcode_of 18 = Some OP_RETURN" "test_opcode_of 200 = None"
  by (simp_all add: test_opcode_of_def opcode_table_def)

subsection \<open>Unary negation\<close>

text \<open>
  C1. The claim: with \<open>Int(n)\<close> or \<open>Double(x)\<close> on top of the stack, \<open>NEGATE\<close>
  succeeds and replaces the top by its negation, and it raises the type error exactly
  when the operand is neither. The guard of the case is
  \<open>!IS_INT(peek(0)) || !IS_DOUBLE(peek(0))\<close>, which holds of every value, so the two
  branches that negate are never reached (\<open>NEGATE_always_fails\<close>). Evaluated on the
  stack \<open>[Int 5]\<close>: the instruction reports "Operand must be a number (int/double)."
  and leaves with a runtime error and an empty stack, where the claim has \<open>[Int (-5)]\<close>.
\<close>

theorem negate_int_operand_raises:
  "step test_env (test_vm [16] [] [7] [INT_VAL 5]) =
     Exit INTERPRET_RUNTIME_ERROR
       ((test_vm [16] [] [7] [])\<lparr>ip := 1,
          err := [\<lparr>message = ''Operand must be a number (int/double).'', line = 7\<rparr>]\<rparr>)"
  by (simp add: step_def READ_BYTE_def test_vm_def test_env_def test_opcodes peek_def
        fail_def runtimeError_def resetStack_def operand_message_def)

subsection \<open>The line reported with a runtime error\<close>

text \<open>
  C2, as stated: a runtime error raised by the instruction at offset \<open>k\<close> reports the
  line that the line table gives for \<open>k\<close>, also for \<open>GET_GLOBAL\<close> and \<open>SET_GLOBAL\<close>.
  This fails. The unit below holds \<open>GET_GLOBAL\<close> at offset 0 with its operand at
  offset 1, and a line table that maps offset 0 to line 1 and offset 1 to line 2. The
  global is unbound, the instruction at offset 0 faults, and the diagnostic reports
  line 2.
\<close>

theorem error_line_operand_counterexample:
  "step test_env (test_vm [5, 0] [OBJ_VAL (ObjString ''x'')] [1, 2] []) =
     Exit INTERPRET_RUNTIME_ERROR
       ((test_vm [5, 0] [OBJ_VAL (ObjString ''x'')] [1, 2] [])\<lparr>ip := 2,
          err := [\<lparr>message = undefined_variable_message ''x'', line = 2\<rparr>]\<rparr>)
   \<and> lines (chunk (test_vm [5, 0] [OBJ_VAL (ObjString ''x'')] [1, 2] [])) ! 0 = 1"
  by (simp add: step_def READ_BYTE_def READ_STRING_def READ_CONSTANT_def test_vm_def
        test_env_def test_opcodes tableGet_def fail_def runtimeError_def resetStack_def)

text \<open>
  C2, amended: \<open>runtimeError\<close> reports the line of the byte fetched last. For an
  instruction at offset \<open>k\<close> that raises a runtime error this is the line of offset
  \<open>k\<close> when the opcode has no operand (the arithmetic opcodes and \<open>NEGATE\<close>) and the
  line of offset \<open>k + 1\<close>, the operand byte, for \<open>GET_GLOBAL\<close> and \<open>SET_GLOBAL\<close>; the
  two agree when the line table gives an operand byte the line of its opcode. The
  offset looked up lies inside the line table.
\<close>

theorem error_line_attribution:
  assumes "step E vm = Exit INTERPRET_RUNTIME_ERROR vm'"
      and "opcode_of E (code (chunk vm) ! ip vm) = Some op"
  shows "ip vm + operand_bytes op < length (lines (chunk vm)) \<and>
         (\<exists>msg. err vm' = err vm @
            [\<lparr>message = msg, line = lines (chunk vm) ! (ip vm + operand_bytes op)\<rparr>])"
proof -
  from assms(1) have inside: "ip vm < length (code (chunk vm))"
    by (auto simp: step_def READ_BYTE_def split: if_splits)
  with assms have "execute E op (vm\<lparr>ip := ip vm + 1\<rparr>) = Exit INTERPRET_RUNTIME_ERROR vm'"
    by (simp add: step_fetch)
  from execute_Exit [OF this] show ?thesis by auto
qed

theorem error_line_attribution_witness:
  "step test_env (test_vm [11] [] [4] [NIL_VAL, INT_VAL 1]) =
     Exit INTERPRET_RUNTIME_ERROR
       ((test_vm [11] [] [4] [])\<lparr>ip := 1,
          err := [\<lparr>message = operands_message, line = 4\<rparr>]\<rparr>)
   \<and> 0 + operand_bytes OP_ADD < length [4 :: int]
   \<and> [4 :: int] ! (0 + operand_bytes OP_ADD) = 4
   \<and> step test_env (test_vm [5, 0] [OBJ_VAL (ObjString ''x'')] [1, 2] []) =
     Exit INTERPRET_RUNTIME_ERROR
       ((test_vm [5, 0] [OBJ_VAL (ObjString ''x'')] [1, 2] [])\<lparr>ip := 2,
          err := [\<lparr>message = undefined_variable_message ''x'', line = 2\<rparr>]\<rparr>)
   \<and> 0 + operand_bytes OP_GET_GLOBAL < length [1, 2 :: int]
   \<and> [1, 2 :: int] ! (0 + operand_bytes OP_GET_GLOBAL) = 2"
proof -
  let ?add = "test_vm [11] [] [4] [NIL_VAL, INT_VAL 1]"
  let ?add' = "(test_vm [11] [] [4] [])\<lparr>ip := 1,
          err := [\<lparr>message = operands_message, line = 4\<rparr>]\<rparr>"
  let ?get = "test_vm [5, 0] [OBJ_VAL (ObjString ''x'')] [1, 2] []"
  let ?get' = "?get\<lparr>ip := 2, err := [\<lparr>message = undefined_variable_message ''x'', line = 2\<rparr>]\<rparr>"
  have add: "step test_env ?add = Exit INTERPRET_RUNTIME_ERROR ?add'"
    by (simp add: step_def READ_BYTE_def test_vm_def test_env_def test_opcodes both_are_def
          peek_def BINARY_OP_def fail_def runtimeError_def resetStack_def)
  have add_op: "opcode_of test_env (code (chunk ?add) ! ip ?add) = Some OP_ADD"
    by (simp add: test_vm_def test_env_def test_opcodes)
  have get: "step test_env ?get = Exit INTERPRET_RUNTIME_ERROR ?get'"
    by (simp add: step_def READ_BYTE_def READ_STRING_def READ_CONSTANT_def test_vm_def
        test_env_def test_opcodes tableGet_def fail_def runtimeError_def resetStack_def)
  have get_op: "opcode_of test_env (code (chunk ?get) ! ip ?get) = Some OP_GET_GLOBAL"
    by (simp add: test_vm_def test_env_def test_opcodes)
  from error_line_attribution [OF add add_op] error_line_attribution [OF get get_op] add get
  show ?thesis
    by (simp add: test_vm_def)
qed

subsection \<open>Assignment to a global\<close>

text \<open>
  C3. \<open>SET_GLOBAL\<close> on a name without a binding raises the runtime error
  "Undefined variable 'name'." (the name as \<open>%s\<close> prints it) and leaves the table of globals as it was, without a
  binding for the name; on a bound name it replaces the binding by the value on top of
  the stack and leaves the stack as it is.
\<close>

theorem set_global_contract:
  assumes "ip vm = k" and "k + 1 < length (code (chunk vm))"
      and "opcode_of E (code (chunk vm) ! k) = Some OP_SET_GLOBAL"
      and "unat (code (chunk vm) ! (k + 1)) < length (constants (chunk vm))"
      and "constants (chunk vm) ! unat (code (chunk vm) ! (k + 1)) = OBJ_VAL (ObjString name)"
      and "stack vm = v # rest"
      and "k + 1 < length (lines (chunk vm))"
  shows "(globals vm name = None \<longrightarrow>
            (\<exists>vm'. step E vm = Exit INTERPRET_RUNTIME_ERROR vm'
               \<and> message (last (err vm')) =
                    ''Undefined variable '' @ [CHR 0x27] @ c_string name @ [CHR 0x27] @ ''.''
               \<and> globals vm' name = None \<and> globals vm' = globals vm))
       \<and> (\<forall>old. globals vm name = Some old \<longrightarrow>
            step E vm = Next (vm\<lparr>ip := k + 2, globals := (globals vm)(name \<mapsto> v)\<rparr>)
            \<and> stack (vm\<lparr>ip := k + 2, globals := (globals vm)(name \<mapsto> v)\<rparr>) = v # rest)"
proof -
  let ?vm1 = "vm\<lparr>ip := Suc k\<rparr>"
  from assms have fetch: "step E vm = execute E OP_SET_GLOBAL ?vm1"
    by (simp add: step_fetch)
  from assms have name: "READ_STRING ?vm1 = Some (name, vm\<lparr>ip := Suc (Suc k)\<rparr>)"
    by (simp add: READ_STRING_def READ_CONSTANT_def READ_BYTE_def)
  from assms have top: "peek 0 (vm\<lparr>ip := Suc (Suc k)\<rparr>) = Some v"
    by (simp add: peek_def)
  have absent: "step E vm = Exit INTERPRET_RUNTIME_ERROR
      (vm\<lparr>ip := k + 2, stack := [],
          err := err vm @ [\<lparr>message = undefined_variable_message name,
                                line = lines (chunk vm) ! (k + 1)\<rparr>]\<rparr>)"
    if "globals vm name = None"
    using that assms(7)
    by (simp add: fetch name top tableSet_def tableDelete_def fail_def runtimeError_def
          resetStack_def fun_upd_idem)
  have bound: "step E vm = Next (vm\<lparr>ip := k + 2, globals := (globals vm)(name \<mapsto> v)\<rparr>)"
    if "globals vm name = Some old" for old
    using that by (simp add: fetch name top tableSet_def)
  show ?thesis
    using assms(6) by (simp add: absent bound undefined_variable_message_def)
qed

theorem set_global_contract_witness:
  "step test_env (test_vm [7, 0] [OBJ_VAL (ObjString ''y'')] [3, 3] [INT_VAL 1]) =
     Exit INTERPRET_RUNTIME_ERROR
       ((test_vm [7, 0] [OBJ_VAL (ObjString ''y'')] [3, 3] [])\<lparr>ip := 2,
          err := [\<lparr>message = ''Undefined variable '' @ [CHR 0x27] @ ''y'' @ [CHR 0x27] @ ''.'',
                   line = 3\<rparr>]\<rparr>)
   \<and> globals ((test_vm [7, 0] [OBJ_VAL (ObjString ''y'')] [3, 3] [])\<lparr>ip := 2,
          err := [\<lparr>message = ''Undefined variable '' @ [CHR 0x27] @ ''y'' @ [CHR 0x27] @ ''.'',
                   line = 3\<rparr>]\<rparr>) ''y'' = None
   \<and> step test_env
         ((test_vm [7, 0] [OBJ_VAL (ObjString ''y'')] [3, 3] [INT_VAL 1])
            \<lparr>globals := [''y'' \<mapsto> NIL_VAL]\<rparr>) =
       Next ((test_vm [7, 0] [OBJ_VAL (ObjString ''y'')] [3, 3] [INT_VAL 1])
            \<lparr>ip := 2, globals := [''y'' \<mapsto> INT_VAL 1]\<rparr>)"
proof -
  let ?vm = "test_vm [7, 0] [OBJ_VAL (ObjString ''y'')] [3, 3] [INT_VAL 1]"
  let ?vm2 = "?vm\<lparr>globals := [''y'' \<mapsto> NIL_VAL]\<rparr>"
  have a: "(globals ?vm ''y'' = None \<longrightarrow>
            (\<exists>vm'. step test_env ?vm = Exit INTERPRET_RUNTIME_ERROR vm'
               \<and> message (last (err vm')) =
                    ''Undefined variable '' @ [CHR 0x27] @ c_string ''y'' @ [CHR 0x27] @ ''.''
               \<and> globals vm' ''y'' = None \<and> globals vm' = globals ?vm))"
    using set_global_contract [of ?vm 0 test_env "''y''" "INT_VAL 1" "[]"]
    by (simp add: test_vm_def test_env_def test_opcodes)
  have b: "step test_env ?vm2 = Next (?vm2\<lparr>ip := 0 + 2, globals := (globals ?vm2)(''y'' \<mapsto> INT_VAL 1)\<rparr>)"
    using set_global_contract [of ?vm2 0 test_env "''y''" "INT_VAL 1" "[]"]
    by (simp add: test_vm_def test_env_def test_opcodes)
  have c: "step test_env ?vm = Exit INTERPRET_RUNTIME_ERROR
       ((test_vm [7, 0] [OBJ_VAL (ObjString ''y'')] [3, 3] [])\<lparr>ip := 2,
          err := [\<lparr>message = ''Undefined variable '' @ [CHR 0x27] @ ''y'' @ [CHR 0x27] @ ''.'',
                   line = 3\<rparr>]\<rparr>)"
    by (simp add: step_def READ_BYTE_def READ_STRING_def READ_CONSTANT_def test_vm_def
        test_env_def test_opcodes peek_def tableSet_def tableDelete_def fail_def
        runtimeError_def resetStack_def undefined_variable_message_def c_string_def)
  from a b c show ?thesis by (simp add: test_vm_def)
qed

subsection \<open>The capacity of the stack\<close>

text \<open>
  The array \<open>vm.stack\<close> has \<open>STACK_MAX\<close> slots. A state of the program holds at most
  that many values, and an instruction that goes on keeps it so. The theorems on
  instructions that pop before they push assume this bound of the state they start in.
\<close>

lemma execute_Next_bound:
  "execute E op vm = Next vm' \<Longrightarrow> length (stack vm) \<le> STACK_MAX \<Longrightarrow>
     length (stack vm') \<le> STACK_MAX"
  by (cases op)
     (auto simp: continue_def fail_def both_are_def peek_def tableSet_def tableGet_def
                 BINARY_OP_def BINARY_OP_COMPARISON_def concatenate_def
           split: option.splits bool.splits if_splits Option.bind_splits prod.splits
           dest!: push_Some pop_Some READ_CONSTANT_Some READ_STRING_Some)

lemma step_Next_bound:
  "step E vm = Next vm' \<Longrightarrow> length (stack vm) \<le> STACK_MAX \<Longrightarrow>
     length (stack vm') \<le> STACK_MAX"
  by (auto simp: step_def READ_BYTE_def split: option.splits if_splits
           dest!: execute_Next_bound)

subsection \<open>Arithmetic on operands of different variants\<close>

lemma int_arith_None:
  "int_arith op x y = None \<longleftrightarrow> op = Slash \<and> (y = 0 \<or> (x = INT_MIN \<and> y = - 1))"
  by (cases op) auto

lemma BINARY_OP_mixed:
  assumes "stack vm = b # a # rest"
      and "(IS_INT a \<and> IS_DOUBLE b) \<or> (IS_DOUBLE a \<and> IS_INT b)"
  shows "BINARY_OP E op vm = fail (runtimeError operands_message vm)"
  using assms
  by (cases a; cases b) (simp_all add: BINARY_OP_def both_are_def peek_def)

lemma BINARY_OP_ints:
  assumes "stack vm = INT_VAL y # INT_VAL x # rest" and "length (stack vm) \<le> STACK_MAX"
  shows "BINARY_OP E op vm =
           (case int_arith op x y of None \<Rightarrow> Undefined_Behaviour
            | Some r \<Rightarrow> Next (vm\<lparr>stack := INT_VAL r # rest\<rparr>))"
  using assms
  by (simp add: BINARY_OP_def both_are_def peek_def pop_def push_def continue_def STACK_MAX_def
           split: option.splits)

lemma BINARY_OP_doubles:
  assumes "stack vm = DOUBLE_VAL y # DOUBLE_VAL x # rest" and "length (stack vm) \<le> STACK_MAX"
  shows "BINARY_OP E op vm = Next (vm\<lparr>stack := DOUBLE_VAL (double_arith E op x y) # rest\<rparr>)"
  using assms
  by (simp add: BINARY_OP_def both_are_def peek_def pop_def push_def continue_def STACK_MAX_def)

lemma execute_arith:
  assumes "arith_operator opc = Some bop"
      and "stack vm = b # a # rest" and "\<not> (IS_STRING b \<and> IS_STRING a)"
  shows "execute E opc vm = BINARY_OP E bop vm"
  using assms by (cases opc) (auto simp: both_are_def peek_def)

text \<open>
  C4, as stated: Int with Double raises the error of the numeric operators, two Ints
  give an Int, and two Doubles give a Double, for each of \<open>ADD\<close>, \<open>SUBTRACT\<close>,
  \<open>MULTIPLY\<close> and \<open>DIVIDE\<close>. The clause on two Ints fails for \<open>DIVIDE\<close>: the macro
  divides without looking at the divisor, and with \<open>Int 1\<close> below \<open>Int 0\<close> on the stack
  the integer division by zero has no result. No Int is pushed, no runtime error is
  reported, and \<open>run\<close> does not continue.
\<close>

theorem divide_by_int_zero_counterexample:
  "step test_env (test_vm [14] [] [1] [INT_VAL 0, INT_VAL 1]) = Undefined_Behaviour"
  by (simp add: step_def READ_BYTE_def test_vm_def test_env_def test_opcodes both_are_def
        peek_def BINARY_OP_def pop_def continue_def)

text \<open>
  C4, amended: with one operand an Int and the other a Double, each of \<open>ADD\<close>,
  \<open>SUBTRACT\<close>, \<open>MULTIPLY\<close> and \<open>DIVIDE\<close> raises the runtime error "Operands must be
  either both integer or both double numbers." and converts nothing. Two Doubles give
  a Double. Two Ints give an Int, except for \<open>DIVIDE\<close> with the divisor \<open>Int 0\<close>, or
  with \<open>INT_MIN\<close> divided by \<open>Int (-1)\<close>: there the C division has no result and the
  instruction produces no value.
\<close>

theorem mixed_arithmetic_rejected:
  assumes "ip vm = k" and "k < length (code (chunk vm))" and "k < length (lines (chunk vm))"
      and "opcode_of E (code (chunk vm) ! k) = Some opc"
      and "arith_operator opc = Some bop"
      and "stack vm = b # a # rest" and "length (stack vm) \<le> STACK_MAX"
  shows "((IS_INT a \<and> IS_DOUBLE b) \<or> (IS_DOUBLE a \<and> IS_INT b) \<longrightarrow>
            step E vm = Exit INTERPRET_RUNTIME_ERROR
              (vm\<lparr>ip := k + 1, stack := [],
                  err := err vm @
                    [\<lparr>message = ''Operands must be either both integer or both double numbers.'',
                      line = lines (chunk vm) ! k\<rparr>]\<rparr>))
       \<and> (\<forall>x y. a = INT_VAL x \<and> b = INT_VAL y
              \<and> \<not> (opc = OP_DIVIDE \<and> (y = 0 \<or> (x = INT_MIN \<and> y = - 1))) \<longrightarrow>
            (\<exists>r. int_arith bop x y = Some r
               \<and> step E vm = Next (vm\<lparr>ip := k + 1, stack := INT_VAL r # rest\<rparr>)))
       \<and> (\<forall>x y. a = INT_VAL x \<and> b = INT_VAL y
              \<and> opc = OP_DIVIDE \<and> (y = 0 \<or> (x = INT_MIN \<and> y = - 1)) \<longrightarrow>
            step E vm = Undefined_Behaviour)
       \<and> (\<forall>x y. a = DOUBLE_VAL x \<and> b = DOUBLE_VAL y \<longrightarrow>
            step E vm =
              Next (vm\<lparr>ip := k + 1, stack := DOUBLE_VAL (double_arith E bop x y) # rest\<rparr>))"
proof -
  let ?vm1 = "vm\<lparr>ip := Suc k\<rparr>"
  from assms have fetch: "step E vm = execute E opc ?vm1"
    by (simp add: step_fetch)
  have stk: "stack ?vm1 = b # a # rest" "length (stack ?vm1) \<le> STACK_MAX"
    using assms by simp_all
  from assms(5) have slash: "bop = Slash \<longleftrightarrow> opc = OP_DIVIDE"
    by (cases opc) auto
  have mixed: "step E vm = Exit INTERPRET_RUNTIME_ERROR
              (vm\<lparr>ip := k + 1, stack := [],
                  err := err vm @ [\<lparr>message = operands_message, line = lines (chunk vm) ! k\<rparr>]\<rparr>)"
    if m: "(IS_INT a \<and> IS_DOUBLE b) \<or> (IS_DOUBLE a \<and> IS_INT b)"
  proof -
    from m have ns: "\<not> (IS_STRING b \<and> IS_STRING a)" by (cases a; cases b) auto
    have "step E vm = BINARY_OP E bop ?vm1"
      by (simp add: fetch execute_arith [OF assms(5) stk(1) ns])
    also have "\<dots> = fail (runtimeError operands_message ?vm1)"
      by (rule BINARY_OP_mixed [OF stk(1) m])
    finally show ?thesis
      using assms(3) by (simp add: fail_def runtimeError_def resetStack_def)
  qed
  have ints: "step E vm =
      (case int_arith bop x y of None \<Rightarrow> Undefined_Behaviour
       | Some r \<Rightarrow> Next (vm\<lparr>ip := k + 1, stack := INT_VAL r # rest\<rparr>))"
    if "a = INT_VAL x" "b = INT_VAL y" for x y
  proof -
    have "step E vm = BINARY_OP E bop ?vm1"
      using that stk by (simp add: fetch execute_arith [OF assms(5)])
    then show ?thesis
      using that stk by (simp add: BINARY_OP_ints split: option.splits)
  qed
  have defined: "\<exists>r. int_arith bop x y = Some r
               \<and> step E vm = Next (vm\<lparr>ip := k + 1, stack := INT_VAL r # rest\<rparr>)"
    if "a = INT_VAL x" "b = INT_VAL y"
       "\<not> (opc = OP_DIVIDE \<and> (y = 0 \<or> (x = INT_MIN \<and> y = - 1)))" for x y
  proof -
    from that(3) have "int_arith bop x y \<noteq> None"
      by (simp add: int_arith_None slash)
    then obtain r where "int_arith bop x y = Some r" by auto
    with ints [OF that(1,2)] show ?thesis by simp
  qed
  have trap: "step E vm = Undefined_Behaviour"
    if "a = INT_VAL x" "b = INT_VAL y"
       "opc = OP_DIVIDE" "y = 0 \<or> (x = INT_MIN \<and> y = - 1)" for x y
  proof -
    from that(3,4) have "int_arith bop x y = None"
      by (simp add: int_arith_None slash)
    with ints [OF that(1,2)] show ?thesis by simp
  qed
  have doubles: "step E vm =
              Next (vm\<lparr>ip := k + 1, stack := DOUBLE_VAL (double_arith E bop x y) # rest\<rparr>)"
    if "a = DOUBLE_VAL x" "b = DOUBLE_VAL y" for x y
  proof -
    have "step E vm = BINARY_OP E bop ?vm1"
      using that stk by (simp add: fetch execute_arith [OF assms(5)])
    then show ?thesis
      using that stk by (simp add: BINARY_OP_doubles)
  qed
  show ?thesis
  proof (intro conjI allI impI)
    assume "(IS_INT a \<and> IS_DOUBLE b) \<or> (IS_DOUBLE a \<and> IS_INT b)"
    then show "step E vm = Exit INTERPRET_RUNTIME_ERROR
              (vm\<lparr>ip := k + 1, stack := [],
                  err := err vm @
                    [\<lparr>message = ''Operands must be either both integer or both double numbers.'',
                      line = lines (chunk vm) ! k\<rparr>]\<rparr>)"
      by (simp add: mixed operands_message_def)
  next
    fix x y
    assume "a = INT_VAL x \<and> b = INT_VAL y
              \<and> \<not> (opc = OP_DIVIDE \<and> (y = 0 \<or> (x = INT_MIN \<and> y = - 1)))"
    then show "\<exists>r. int_arith bop x y = Some r
               \<and> step E vm = Next (vm\<lparr>ip := k + 1, stack := INT_VAL r # rest\<rparr>)"
      by (intro defined) simp_all
  next
    fix x y
    assume "a = INT_VAL x \<and> b = INT_VAL y
              \<and> opc = OP_DIVIDE \<and> (y = 0 \<or> (x = INT_MIN \<and> y = - 1))"
    then show "step E vm = Undefined_Behaviour"
      by (intro trap [of x y]) simp_all
  next
    fix x y
    assume "a = DOUBLE_VAL x \<and> b = DOUBLE_VAL y"
    then show "step E vm =
              Next (vm\<lparr>ip := k + 1, stack := DOUBLE_VAL (double_arith E bop x y) # rest\<rparr>)"
      by (intro doubles) simp_all
  qed
qed

theorem mixed_arithmetic_rejected_witness:
  "step test_env (test_vm [11] [] [4] [DOUBLE_VAL 2, INT_VAL 3]) =
     Exit INTERPRET_RUNTIME_ERROR
       ((test_vm [11] [] [4] [])\<lparr>ip := 1,
          err := [\<lparr>message = ''Operands must be either both integer or both double numbers.'',
                   line = 4\<rparr>]\<rparr>)
   \<and> int_arith Slash 6 2 = Some 3
   \<and> step test_env (test_vm [14] [] [4] [INT_VAL 2, INT_VAL 6]) =
       Next ((test_vm [14] [] [4] [INT_VAL 3])\<lparr>ip := 1\<rparr>)
   \<and> step test_env (test_vm [14] [] [4] [INT_VAL 0, INT_VAL 6]) = Undefined_Behaviour
   \<and> step test_env (test_vm [12] [] [4] [DOUBLE_VAL 1, DOUBLE_VAL 2]) =
       Next ((test_vm [12] [] [4] [DOUBLE_VAL (double_arith test_env Minus 2 1)])\<lparr>ip := 1\<rparr>)"
proof -
  have d: "int_arith Slash 6 2 = Some 3"
    by (simp add: INT_MIN_def signed_divide_int_def)
  have m: "IS_INT (INT_VAL 3) \<and> IS_DOUBLE (DOUBLE_VAL 2) \<or> IS_DOUBLE (INT_VAL 3) \<and> IS_INT (DOUBLE_VAL 2)"
    by simp
  have n: "\<not> (OP_DIVIDE = OP_DIVIDE \<and> ((2 :: cint) = 0 \<or> ((6 :: cint) = INT_MIN \<and> (2 :: cint) = - 1)))"
    by simp
  show ?thesis
    using m d n
      mixed_arithmetic_rejected [of "test_vm [11] [] [4] [DOUBLE_VAL 2, INT_VAL 3]" 0 test_env
        OP_ADD Plus "DOUBLE_VAL 2" "INT_VAL 3" "[]"]
      mixed_arithmetic_rejected [of "test_vm [14] [] [4] [INT_VAL 2, INT_VAL 6]" 0 test_env
        OP_DIVIDE Slash "INT_VAL 2" "INT_VAL 6" "[]"]
      mixed_arithmetic_rejected [of "test_vm [14] [] [4] [INT_VAL 0, INT_VAL 6]" 0 test_env
        OP_DIVIDE Slash "INT_VAL 0" "INT_VAL 6" "[]"]
      mixed_arithmetic_rejected [of "test_vm [12] [] [4] [DOUBLE_VAL 1, DOUBLE_VAL 2]" 0 test_env
        OP_SUBTRACT Minus "DOUBLE_VAL 1" "DOUBLE_VAL 2" "[]"]
    by (simp add: test_vm_def test_env_def test_opcodes STACK_MAX_def)
qed

subsection \<open>Comparison\<close>

text \<open>
  C5, as stated: \<open>GREATER\<close> and \<open>LESS\<close> push \<open>Bool (p_a > p_b)\<close> and
  \<open>Bool (p_a < p_b)\<close>, where \<open>p_a\<close> and \<open>p_b\<close> are boolean payloads of the operands,
  compared as boolean values and not as numbers, for every pair of operand values.
  This fails for operands that are no Bools. Where the \<open>boolean\<close> member overlays the
  lowest byte of an Int, \<open>GREATER\<close> pushes true for \<open>Int 5\<close> over \<open>Int 3\<close> and also for
  \<open>Int 3\<close> over \<open>Int 1\<close>: as truth values \<open>Int 3\<close> would have to be false in the first
  comparison and true in the second, so no assignment of truth values to the operands
  gives both results. The bytes are compared as numbers.
\<close>

theorem comparison_truth_values_counterexample:
  "step test_env (test_vm [9] [] [1] [INT_VAL 3, INT_VAL 5]) =
     Next ((test_vm [9] [] [1] [BOOL_VAL True])\<lparr>ip := 1\<rparr>)
   \<and> step test_env (test_vm [9] [] [1] [INT_VAL 1, INT_VAL 3]) =
     Next ((test_vm [9] [] [1] [BOOL_VAL True])\<lparr>ip := 1\<rparr>)
   \<and> \<not> (\<exists>p :: Value \<Rightarrow> bool.
          step test_env (test_vm [9] [] [1] [INT_VAL 3, INT_VAL 5]) =
            Next ((test_vm [9] [] [1] [BOOL_VAL (p (INT_VAL 5) > p (INT_VAL 3))])\<lparr>ip := 1\<rparr>)
        \<and> step test_env (test_vm [9] [] [1] [INT_VAL 1, INT_VAL 3]) =
            Next ((test_vm [9] [] [1] [BOOL_VAL (p (INT_VAL 3) > p (INT_VAL 1))])\<lparr>ip := 1\<rparr>))"
proof -
  note defs = step_def READ_BYTE_def test_vm_def test_env_def test_opcodes
    BINARY_OP_COMPARISON_def pop_def push_def continue_def STACK_MAX_def
  have a: "step test_env (test_vm [9] [] [1] [INT_VAL 3, INT_VAL 5]) =
     Next ((test_vm [9] [] [1] [BOOL_VAL True])\<lparr>ip := 1\<rparr>)"
    by (simp add: defs)
  have b: "step test_env (test_vm [9] [] [1] [INT_VAL 1, INT_VAL 3]) =
     Next ((test_vm [9] [] [1] [BOOL_VAL True])\<lparr>ip := 1\<rparr>)"
    by (simp add: defs)
  show ?thesis
    unfolding a b by (auto simp: test_vm_def)
qed

text \<open>
  C5, amended: \<open>GREATER\<close> and \<open>LESS\<close> pop \<open>b\<close> (top) and \<open>a\<close> (below) and push the
  Bool that compares, as unsigned numbers, the bytes that \<open>AS_BOOL\<close> reads from \<open>a\<close> and
  from \<open>b\<close>, for every pair of operand values and without raising any runtime error.
  For a Bool the byte is 1 or 0, so on two Bools the result is the comparison of the
  payloads as truth values (\<open>p > q\<close> exactly for \<open>p\<close> true and \<open>q\<close> false); for an
  operand of another variant it is the byte of the value that the \<open>boolean\<close> member of
  the union overlays.
\<close>

theorem comparison_on_boolean_member:
  assumes "ip vm = k" and "k < length (code (chunk vm))"
      and "opcode_of E (code (chunk vm) ! k) = Some opc"
      and "stack vm = b # a # rest" and "length (stack vm) \<le> STACK_MAX"
  shows "(opc = OP_GREATER \<longrightarrow>
            step E vm = Next (vm\<lparr>ip := k + 1,
                                stack := BOOL_VAL (AS_BOOL E a > AS_BOOL E b) # rest\<rparr>))
       \<and> (opc = OP_LESS \<longrightarrow>
            step E vm = Next (vm\<lparr>ip := k + 1,
                                stack := BOOL_VAL (AS_BOOL E a < AS_BOOL E b) # rest\<rparr>))
       \<and> (\<forall>p q. (AS_BOOL E (BOOL_VAL p) > AS_BOOL E (BOOL_VAL q) \<longleftrightarrow> p \<and> \<not> q)
                \<and> (AS_BOOL E (BOOL_VAL p) < AS_BOOL E (BOOL_VAL q) \<longleftrightarrow> \<not> p \<and> q))
       \<and> (\<forall>v. \<not> IS_BOOL v \<longrightarrow> AS_BOOL E v = union_boolean E v)"
proof -
  have member: "AS_BOOL E v = union_boolean E v" if "\<not> IS_BOOL v" for v
    using that by (cases v) simp_all
  from assms show ?thesis
    by (auto simp: step_fetch BINARY_OP_COMPARISON_def pop_def push_def continue_def
          STACK_MAX_def member)
qed

theorem comparison_on_boolean_member_witness:
  "step test_env (test_vm [9] [] [1] [BOOL_VAL False, BOOL_VAL True]) =
     Next ((test_vm [9] [] [1] [BOOL_VAL True])\<lparr>ip := 1\<rparr>)
   \<and> step test_env (test_vm [10] [] [1] [BOOL_VAL False, BOOL_VAL True]) =
     Next ((test_vm [10] [] [1] [BOOL_VAL False])\<lparr>ip := 1\<rparr>)
   \<and> step test_env (test_vm [9] [] [1] [INT_VAL 3, INT_VAL 5]) =
     Next ((test_vm [9] [] [1] [BOOL_VAL True])\<lparr>ip := 1\<rparr>)
   \<and> step test_env (test_vm [10] [] [1] [INT_VAL 3, INT_VAL 5]) =
     Next ((test_vm [10] [] [1] [BOOL_VAL False])\<lparr>ip := 1\<rparr>)
   \<and> AS_BOOL test_env (INT_VAL 5) = union_boolean test_env (INT_VAL 5)"
  using comparison_on_boolean_member [of "test_vm [9] [] [1] [BOOL_VAL False, BOOL_VAL True]" 0
          test_env OP_GREATER "BOOL_VAL False" "BOOL_VAL True" "[]"]
        comparison_on_boolean_member [of "test_vm [10] [] [1] [BOOL_VAL False, BOOL_VAL True]" 0
          test_env OP_LESS "BOOL_VAL False" "BOOL_VAL True" "[]"]
        comparison_on_boolean_member [of "test_vm [9] [] [1] [INT_VAL 3, INT_VAL 5]" 0
          test_env OP_GREATER "INT_VAL 3" "INT_VAL 5" "[]"]
        comparison_on_boolean_member [of "test_vm [10] [] [1] [INT_VAL 3, INT_VAL 5]" 0
          test_env OP_LESS "INT_VAL 3" "INT_VAL 5" "[]"]
  by (simp add: test_vm_def test_env_def test_opcodes STACK_MAX_def)

subsection \<open>Truthiness and \<open>NOT\<close>\<close>

text \<open>
  C7. A value is falsey exactly when it is Nil or Bool false; Int 0 and Double 0.0 are
  truthy. \<open>NOT\<close> pops a value \<open>v\<close> and pushes Bool true exactly when \<open>v\<close> is falsey, for
  every value, and raises no runtime error.
\<close>

theorem falsey_values_and_not:
  "(isFalsey E v \<longleftrightarrow> v = NIL_VAL \<or> v = BOOL_VAL False)
   \<and> \<not> isFalsey E (INT_VAL 0) \<and> \<not> isFalsey E (DOUBLE_VAL 0)
   \<and> (ip vm < length (code (chunk vm))
        \<and> opcode_of E (code (chunk vm) ! ip vm) = Some OP_NOT
        \<and> stack vm = v # rest \<and> length (stack vm) \<le> STACK_MAX \<longrightarrow>
      step E vm = Next (vm\<lparr>ip := ip vm + 1, stack := BOOL_VAL (isFalsey E v) # rest\<rparr>)
      \<and> (isFalsey E v \<longleftrightarrow> v = NIL_VAL \<or> v = BOOL_VAL False))"
proof -
  have f: "isFalsey E w \<longleftrightarrow> w = NIL_VAL \<or> w = BOOL_VAL False" for w
    by (cases w) (auto simp: isFalsey_def)
  show ?thesis
    by (auto simp: f step_fetch pop_def push_def continue_def STACK_MAX_def)
qed

theorem falsey_values_and_not_witness:
  "step test_env (test_vm [15] [] [1] [INT_VAL 0]) =
     Next ((test_vm [15] [] [1] [BOOL_VAL False])\<lparr>ip := 1\<rparr>)
   \<and> step test_env (test_vm [15] [] [1] [NIL_VAL]) =
     Next ((test_vm [15] [] [1] [BOOL_VAL True])\<lparr>ip := 1\<rparr>)"
  using falsey_values_and_not [of test_env "INT_VAL 0" "test_vm [15] [] [1] [INT_VAL 0]" "[]"]
        falsey_values_and_not [of test_env "NIL_VAL" "test_vm [15] [] [1] [NIL_VAL]" "[]"]
  by (simp add: test_vm_def test_env_def test_opcodes STACK_MAX_def)

subsection \<open>Stack balance\<close>

text \<open>
  C8. An instruction that executes without error (the loop goes on, or \<open>RETURN\<close>
  leaves it with \<open>INTERPRET_OK\<close>) changes the depth of the stack by the delta that the
  table of section 4.1 documents for its opcode. For \<open>NEGATE\<close> no execution is without
  error (see C1), so nothing is stated of it beyond that.
\<close>

theorem stack_balance:
  assumes "opcode_of E (code (chunk vm) ! ip vm) = Some op"
      and "step E vm = Next vm' \<or> step E vm = Exit INTERPRET_OK vm'"
  shows "int (length (stack vm')) = int (length (stack vm)) + documented_delta op"
proof -
  from assms(2) have inside: "ip vm < length (code (chunk vm))"
    by (auto simp: step_def READ_BYTE_def split: if_splits)
  with assms(1) have fetch: "step E vm = execute E op (vm\<lparr>ip := ip vm + 1\<rparr>)"
    by (simp add: step_fetch)
  from assms(2) show ?thesis
  proof
    assume "step E vm = Next vm'"
    with fetch have "execute E op (vm\<lparr>ip := ip vm + 1\<rparr>) = Next vm'" by simp
    from execute_Next [OF this] show ?thesis by simp
  next
    assume "step E vm = Exit INTERPRET_OK vm'"
    with fetch have "execute E op (vm\<lparr>ip := ip vm + 1\<rparr>) = Exit INTERPRET_OK vm'" by simp
    from execute_Exit [OF this] show ?thesis by auto
  qed
qed

theorem stack_balance_witness:
  "step test_env (test_vm [11] [] [1] [INT_VAL 3, INT_VAL 2, NIL_VAL]) =
     Next ((test_vm [11] [] [1] [INT_VAL 5, NIL_VAL])\<lparr>ip := 1\<rparr>)
   \<and> int (length [INT_VAL 5, NIL_VAL]) =
       int (length [INT_VAL 3, INT_VAL 2, NIL_VAL]) + documented_delta OP_ADD"
proof -
  let ?vm = "test_vm [11] [] [1] [INT_VAL 3, INT_VAL 2, NIL_VAL]"
  let ?vm' = "(test_vm [11] [] [1] [INT_VAL 5, NIL_VAL])\<lparr>ip := 1\<rparr>"
  have opc: "opcode_of test_env (code (chunk ?vm) ! ip ?vm) = Some OP_ADD"
    by (simp add: test_vm_def test_env_def test_opcodes)
  have st: "step test_env ?vm = Next ?vm'"
    by (simp add: step_def READ_BYTE_def test_vm_def test_env_def test_opcodes both_are_def
          peek_def BINARY_OP_def pop_def push_def continue_def STACK_MAX_def)
  then have "step test_env ?vm = Next ?vm' \<or> step test_env ?vm = Exit INTERPRET_OK ?vm'"
    by (rule disjI1)
  from stack_balance [OF opc this] st show ?thesis
    by (simp add: test_vm_def)
qed

subsection \<open>Bytes that are no opcode\<close>

text \<open>
  C9. A byte fetched as opcode that is none of the case labels changes nothing but the
  instruction pointer, which moves to the next byte: no stack change, no error, no
  output, and \<open>run\<close> continues from the next byte.
\<close>

theorem unknown_opcode_skipped:
  assumes "ip vm < length (code (chunk vm))"
      and "opcode_of E (code (chunk vm) ! ip vm) = None"
  shows "step E vm = Next (vm\<lparr>ip := ip vm + 1\<rparr>) \<and> run E vm = run E (vm\<lparr>ip := ip vm + 1\<rparr>)"
proof -
  from assms have s: "step E vm = Next (vm\<lparr>ip := ip vm + 1\<rparr>)"
    by (simp add: step_def READ_BYTE_def)
  have "run E vm = run E (vm\<lparr>ip := ip vm + 1\<rparr>)"
    by (subst run.simps) (simp add: s)
  with s show ?thesis by simp
qed

theorem unknown_opcode_skipped_witness:
  "opcode_of test_env (code (chunk (test_vm [200, 18] [] [1, 1] [NIL_VAL])) ! 0) = None
   \<and> step test_env (test_vm [200, 18] [] [1, 1] [NIL_VAL]) =
       Next ((test_vm [200, 18] [] [1, 1] [NIL_VAL])\<lparr>ip := 1\<rparr>)
   \<and> run test_env (test_vm [200, 18] [] [1, 1] [NIL_VAL]) =
       Some (INTERPRET_OK, (test_vm [200, 18] [] [1, 1] [NIL_VAL])\<lparr>ip := 2\<rparr>)"
proof -
  let ?vm = "test_vm [200, 18] [] [1, 1] [NIL_VAL]"
  have h1: "ip ?vm < length (code (chunk ?vm))" by (simp add: test_vm_def)
  have h2: "opcode_of test_env (code (chunk ?vm) ! ip ?vm) = None"
    by (simp add: test_vm_def test_env_def test_opcodes)
  have r: "run test_env (?vm\<lparr>ip := ip ?vm + 1\<rparr>) = Some (INTERPRET_OK, ?vm\<lparr>ip := 2\<rparr>)"
    by (subst run.simps)
       (simp add: step_def READ_BYTE_def test_vm_def test_env_def test_opcodes)
  from unknown_opcode_skipped [OF h1 h2] h2 r show ?thesis
    by (simp add: test_vm_def)
qed

subsection \<open>\<open>ADD\<close> with one string operand\<close>

text \<open>
  C10. When exactly one operand of \<open>ADD\<close> is a string, the instruction raises the
  runtime error of the numeric operators, "Operands must be either both integer or
  both double numbers."; two strings are concatenated, the lower operand first; and
  whenever the operands are not both strings, \<open>ADD\<close> is \<open>BINARY_OP(+)\<close>.
\<close>

theorem add_with_one_string_operand:
  assumes "ip vm = k" and "k < length (code (chunk vm))" and "k < length (lines (chunk vm))"
      and "opcode_of E (code (chunk vm) ! k) = Some OP_ADD"
      and "stack vm = b # a # rest" and "length (stack vm) \<le> STACK_MAX"
  shows "(IS_STRING a \<noteq> IS_STRING b \<longrightarrow>
            step E vm = Exit INTERPRET_RUNTIME_ERROR
              (vm\<lparr>ip := k + 1, stack := [],
                  err := err vm @
                    [\<lparr>message = ''Operands must be either both integer or both double numbers.'',
                      line = lines (chunk vm) ! k\<rparr>]\<rparr>))
       \<and> (\<forall>s t. a = OBJ_VAL (ObjString s) \<and> b = OBJ_VAL (ObjString t) \<longrightarrow>
            step E vm = Next (vm\<lparr>ip := k + 1, stack := OBJ_VAL (ObjString (s @ t)) # rest\<rparr>))
       \<and> (\<not> (IS_STRING a \<and> IS_STRING b) \<longrightarrow>
            step E vm = BINARY_OP E Plus (vm\<lparr>ip := k + 1\<rparr>))"
proof -
  let ?vm1 = "vm\<lparr>ip := Suc k\<rparr>"
  from assms have fetch: "step E vm = execute E OP_ADD ?vm1"
    by (simp add: step_fetch)
  have stk: "stack ?vm1 = b # a # rest"
    using assms by simp
  have numeric: "step E vm = BINARY_OP E Plus ?vm1" if "\<not> (IS_STRING a \<and> IS_STRING b)"
    using that stk by (auto simp: fetch both_are_def peek_def)
  have one: "step E vm = Exit INTERPRET_RUNTIME_ERROR
              (vm\<lparr>ip := k + 1, stack := [],
                  err := err vm @ [\<lparr>message = operands_message, line = lines (chunk vm) ! k\<rparr>]\<rparr>)"
    if "IS_STRING a \<noteq> IS_STRING b"
  proof -
    from that have "\<not> (IS_STRING a \<and> IS_STRING b)" by auto
    then have "step E vm = BINARY_OP E Plus ?vm1" by (rule numeric)
    also from that stk have "\<dots> = fail (runtimeError operands_message ?vm1)"
      by (cases a; cases b) (auto simp: BINARY_OP_def both_are_def peek_def)
    finally show ?thesis
      using assms(3) by (simp add: fail_def runtimeError_def resetStack_def)
  qed
  have both: "step E vm = Next (vm\<lparr>ip := k + 1, stack := OBJ_VAL (ObjString (s @ t)) # rest\<rparr>)"
    if "a = OBJ_VAL (ObjString s)" "b = OBJ_VAL (ObjString t)" for s t
    using that stk assms(5,6)
    by (simp add: fetch both_are_def peek_def concatenate_def pop_def push_def continue_def
          STACK_MAX_def)
  show ?thesis
    using one both numeric by (simp add: operands_message_def)
qed

theorem add_with_one_string_operand_witness:
  "step test_env (test_vm [11] [] [9] [INT_VAL 1, OBJ_VAL (ObjString ''ab'')]) =
     Exit INTERPRET_RUNTIME_ERROR
       ((test_vm [11] [] [9] [])\<lparr>ip := 1,
          err := [\<lparr>message = ''Operands must be either both integer or both double numbers.'',
                   line = 9\<rparr>]\<rparr>)
   \<and> step test_env (test_vm [11] [] [9] [OBJ_VAL (ObjString ''cd''), OBJ_VAL (ObjString ''ab'')]) =
       Next ((test_vm [11] [] [9] [OBJ_VAL (ObjString ''abcd'')])\<lparr>ip := 1\<rparr>)
   \<and> step test_env (test_vm [11] [] [9] [INT_VAL 1, INT_VAL 2]) =
       BINARY_OP test_env Plus ((test_vm [11] [] [9] [INT_VAL 1, INT_VAL 2])\<lparr>ip := 1\<rparr>)"
  using add_with_one_string_operand [of "test_vm [11] [] [9] [INT_VAL 1, OBJ_VAL (ObjString ''ab'')]"
          0 test_env "INT_VAL 1" "OBJ_VAL (ObjString ''ab'')" "[]"]
        add_with_one_string_operand [of
          "test_vm [11] [] [9] [OBJ_VAL (ObjString ''cd''), OBJ_VAL (ObjString ''ab'')]"
          0 test_env "OBJ_VAL (ObjString ''cd'')" "OBJ_VAL (ObjString ''ab'')" "[]"]
        add_with_one_string_operand [of "test_vm [11] [] [9] [INT_VAL 1, INT_VAL 2]"
          0 test_env "INT_VAL 1" "INT_VAL 2" "[]"]
  by (simp add: test_vm_def test_env_def test_opcodes STACK_MAX_def)

subsection \<open>The stack after a runtime error\<close>

lemma step_runtime_error:
  assumes "step E vm = Exit INTERPRET_RUNTIME_ERROR vm'"
  shows "stack vm' = []"
proof -
  from assms obtain op where "execute E op (vm\<lparr>ip := ip vm + 1\<rparr>) = Exit INTERPRET_RUNTIME_ERROR vm'"
    by (auto simp: step_def READ_BYTE_def split: if_splits option.splits)
  from execute_Exit [OF this] show ?thesis by auto
qed

lemma run_runtime_error:
  "run E vm = Some (INTERPRET_RUNTIME_ERROR, vm') \<Longrightarrow> stack vm' = []"
proof (induction E vm rule: run.induct)
  case (1 E vm)
  show ?case
  proof (cases "step E vm")
    case (Next vm1)
    with "1.prems" have "run E vm1 = Some (INTERPRET_RUNTIME_ERROR, vm')"
      by (subst (asm) run.simps) simp
    with Next show ?thesis by (rule "1.IH")
  next
    case (Exit r vm1)
    with "1.prems" have "r = INTERPRET_RUNTIME_ERROR" "vm1 = vm'"
      by (subst (asm) run.simps, simp)+
    with Exit show ?thesis by (simp add: step_runtime_error)
  next
    case Undefined_Behaviour
    with "1.prems" show ?thesis
      by (subst (asm) run.simps) simp
  qed
qed

text \<open>
  C6. An instruction that raises a runtime error leaves the stack empty, and \<open>run\<close>
  returns at once with \<open>INTERPRET_RUNTIME_ERROR\<close> and the state that the error left.
  Whenever \<open>run\<close> or \<open>interpret\<close> returns \<open>INTERPRET_RUNTIME_ERROR\<close>, the stack is
  empty.
\<close>

theorem runtime_error_resets_stack:
  "(step E vm = Exit INTERPRET_RUNTIME_ERROR vm' \<longrightarrow>
      stack vm' = [] \<and> run E vm = Some (INTERPRET_RUNTIME_ERROR, vm'))
   \<and> (run E vm = Some (INTERPRET_RUNTIME_ERROR, vm') \<longrightarrow> stack vm' = [])
   \<and> (interpret_source E source vm = Some (INTERPRET_RUNTIME_ERROR, vm') \<longrightarrow> stack vm' = [])"
proof (intro conjI impI)
  assume s: "step E vm = Exit INTERPRET_RUNTIME_ERROR vm'"
  then show "stack vm' = []" by (rule step_runtime_error)
  show "run E vm = Some (INTERPRET_RUNTIME_ERROR, vm')"
    by (subst run.simps) (simp add: s)
next
  assume "run E vm = Some (INTERPRET_RUNTIME_ERROR, vm')"
  then show "stack vm' = []" by (rule run_runtime_error)
next
  assume "interpret_source E source vm = Some (INTERPRET_RUNTIME_ERROR, vm')"
  then show "stack vm' = []"
    by (auto simp: interpret_source_def split: option.splits dest: run_runtime_error)
qed

theorem runtime_error_resets_stack_witness:
  "step test_env ((test_vm [1, 0, 0, 11] [INT_VAL 1] [1, 2, 2, 3] [INT_VAL 1, NIL_VAL, BOOL_VAL True])
                    \<lparr>ip := 3\<rparr>) =
     Exit INTERPRET_RUNTIME_ERROR
       ((test_vm [1, 0, 0, 11] [INT_VAL 1] [1, 2, 2, 3] [])\<lparr>ip := 4,
          err := [\<lparr>message = operands_message, line = 3\<rparr>]\<rparr>)
   \<and> run test_env (test_vm [1, 0, 0, 11] [INT_VAL 1] [1, 2, 2, 3] [BOOL_VAL True]) =
     Some (INTERPRET_RUNTIME_ERROR,
       (test_vm [1, 0, 0, 11] [INT_VAL 1] [1, 2, 2, 3] [])\<lparr>ip := 4,
          err := [\<lparr>message = operands_message, line = 3\<rparr>]\<rparr>)
   \<and> interpret_source
       (test_env\<lparr>compile := \<lambda>s. Some \<lparr>code = [1, 0, 0, 11], constants = [INT_VAL 1],
                                        lines = [1, 2, 2, 3]\<rparr>\<rparr>)
       ''nil + 1;'' (test_vm [] [] [] [BOOL_VAL True]) =
     Some (INTERPRET_RUNTIME_ERROR,
       (test_vm [1, 0, 0, 11] [INT_VAL 1] [1, 2, 2, 3] [])\<lparr>ip := 4,
          err := [\<lparr>message = operands_message, line = 3\<rparr>]\<rparr>)
   \<and> stack ((test_vm [1, 0, 0, 11] [INT_VAL 1] [1, 2, 2, 3] [])\<lparr>ip := 4,
          err := [\<lparr>message = operands_message, line = 3\<rparr>]\<rparr>) = []"
proof -
  let ?E = "test_env\<lparr>compile := \<lambda>s. Some \<lparr>code = [1, 0, 0, 11], constants = [INT_VAL 1],
                                        lines = [1, 2, 2, 3]\<rparr>\<rparr>"
  let ?vm0 = "test_vm [1, 0, 0, 11] [INT_VAL 1] [1, 2, 2, 3] [BOOL_VAL True]"
  let ?vm3 = "(test_vm [1, 0, 0, 11] [INT_VAL 1] [1, 2, 2, 3] [INT_VAL 1, NIL_VAL, BOOL_VAL True])
                    \<lparr>ip := 3\<rparr>"
  let ?vm' = "(test_vm [1, 0, 0, 11] [INT_VAL 1] [1, 2, 2, 3] [])\<lparr>ip := 4,
          err := [\<lparr>message = operands_message, line = 3\<rparr>]\<rparr>"
  note defs = step_def READ_BYTE_def READ_CONSTANT_def test_vm_def test_env_def test_opcodes
    both_are_def peek_def BINARY_OP_def pop_def push_def continue_def fail_def
    runtimeError_def resetStack_def STACK_MAX_def
  have s: "step test_env ?vm3 = Exit INTERPRET_RUNTIME_ERROR ?vm'"
    by (simp add: defs)
  have r: "run test_env ?vm0 = Some (INTERPRET_RUNTIME_ERROR, ?vm')"
    by (simp add: run.simps defs)
  have i: "interpret_source ?E ''nil + 1;'' (test_vm [] [] [] [BOOL_VAL True]) =
             Some (INTERPRET_RUNTIME_ERROR, ?vm')"
    by (simp add: interpret_source_def run.simps defs)
  from runtime_error_resets_stack [of test_env ?vm3 ?vm' "''nil + 1;''"] s
       runtime_error_resets_stack [of test_env ?vm0 ?vm' "''nil + 1;''"] r
       runtime_error_resets_stack [of ?E "test_vm [] [] [] [BOOL_VAL True]" ?vm' "''nil + 1;''"] i
  show ?thesis by simp
qed

end
